theory Spec2Isabelle
  imports Main
begin

section \<open>Data model of \<open>src/main/views/webContentEvents.ts\<close>\<close>

text \<open>
  The parsed URL object. The handlers read only \<open>protocol\<close> and \<open>pathname\<close>; \<open>href\<close>
  keeps the text the object was parsed from.
\<close>

record URL =
  href :: string
  protocol :: string
  pathname :: string

text \<open>\<open>type CustomLogin = {inProgress: boolean}\<close>\<close>

record CustomLogin =
  inProgress :: bool

text \<open>
  A \<open>BrowserWindow\<close> handle of the host: its identity and what
  \<open>webContents.getURL()\<close> returns for it at the moment.
\<close>

record BrowserWindow =
  winId :: nat
  getURL :: string

text \<open>
  The fields of \<open>class WebContentsEventManager\<close>: \<open>customLogins\<close> and
  \<open>listeners\<close> are keyed by the web contents id (an absent key is \<open>undefined\<close>),
  \<open>popupWindow\<close> is \<open>undefined\<close> or the shared popup.
\<close>

record WebContentsEventManager =
  customLogins :: "nat \<rightharpoonup> CustomLogin"
  listeners :: "nat \<Rightarrow> bool"
  popupWindow :: "BrowserWindow option"

text \<open>The constructor: both registries empty, no popup.\<close>

definition newManager :: WebContentsEventManager where
  "newManager = \<lparr>customLogins = Map.empty, listeners = (\<lambda>_. False), popupWindow = None\<rparr>"

datatype level = Debug | Info | Warn

text \<open>
  What a handler does to the host besides returning: every call of the source into
  \<open>log\<close>, \<open>event\<close>, \<open>shell\<close>, \<open>WindowManager\<close>, \<open>allowProtocolDialog\<close>,
  \<open>BrowserWindow\<close> and \<open>ContextMenu\<close>, in the order the source makes them. In
  \<open>LoadURL w u ua\<close> the last argument is the \<open>userAgent\<close> option of \<open>loadURL\<close>
  (\<open>None\<close> when the call passes no options). \<open>AttachListeners c\<close> stands for the
  registrations \<open>addWebContentsEventListeners\<close> makes on the web contents \<open>c\<close>
  (\<open>will-navigate\<close>, \<open>did-start-navigation\<close>, the window-open handler, the
  caller's listeners, \<open>render-process-gone\<close>), \<open>DetachListeners c\<close> for the call of
  the stored detachment callback.
\<close>

datatype effect =
    Log level string
  | PreventDefault
  | FlushCookiesStore
  | HandleDialogEvent string string
  | OpenExternal string
  | ShowMainWindow URL
  | NewBrowserWindow nat bool
  | SetWindowOpenHandlerDeny nat
  | OnceReadyToShow nat
  | OnceClosed nat
  | LoadURL nat string "string option"
  | ContextMenuReload nat
  | DetachListeners nat
  | AttachListeners nat

text \<open>Reading a property of \<open>undefined\<close> raises a \<open>TypeError\<close>.\<close>

datatype error = TypeError

datatype action = Deny | Allow

text \<open>
  The collaborators the module imports and this repository part does not define:
  the predicates of \<open>urlUtils\<close>, the lookups of \<open>WindowManager\<close> and
  \<open>BrowserWindow.fromWebContents\<close>, the first scheme of \<open>electron-builder.json\<close>
  (as the text \<open>${scheme}\<close> renders) and \<open>composeUserAgent()\<close>. They are parameters
  of every handler. The argument order of each predicate is the one of its call in the
  source. An input URL is passed as \<open>URL option\<close>: in the two navigation handlers it is
  \<open>urlUtils.parseURL(url)!\<close>, and the non-null assertion does nothing at run time.
  The optional third argument of \<open>isTeamUrl\<close> is \<open>None\<close> where the call omits it.
\<close>

record Env =
  parseURL :: "string \<Rightarrow> URL option"
  isValidURI :: "string \<Rightarrow> bool"
  isTeamUrl :: "URL \<Rightarrow> URL option \<Rightarrow> bool option \<Rightarrow> bool"
  isAdminUrl :: "URL \<Rightarrow> URL option \<Rightarrow> bool"
  isChannelExportUrl :: "URL \<Rightarrow> URL option \<Rightarrow> bool"
  isCustomLoginURL :: "URL option \<Rightarrow> URL \<Rightarrow> bool"
  isTrustedURL :: "URL option \<Rightarrow> URL \<Rightarrow> bool"
  isInternalURL :: "URL \<Rightarrow> URL option \<Rightarrow> bool"
  isCallsPopOutURL :: "URL \<Rightarrow> URL option \<Rightarrow> string \<Rightarrow> bool"
  isPluginUrl :: "URL \<Rightarrow> URL option \<Rightarrow> bool"
  isManagedResource :: "URL \<Rightarrow> URL option \<Rightarrow> bool"
  getServerURLFromWebContentsId :: "nat \<Rightarrow> URL option"
  getCallID :: "string option"
  fromWebContents :: "nat \<Rightarrow> nat option"
  scheme :: string
  composeUserAgent :: string

section \<open>The navigation handlers\<close>

text \<open>
  \<open>serverURL && c\<close>: the condition \<open>c\<close> is evaluated only when the server URL is
  known (a \<open>URL\<close> object is always truthy).
\<close>

definition known :: "URL option \<Rightarrow> (URL \<Rightarrow> bool) \<Rightarrow> bool" where
  "known serverURL c = (case serverURL of None \<Rightarrow> False | Some s \<Rightarrow> c s)"

text \<open>Truthiness of a string: the empty string is falsy.\<close>

definition truthy :: "string \<Rightarrow> bool" where
  "truthy t = (t \<noteq> [])"

text \<open>
  \<open>isTrustedPopupWindow(webContents)\<close>. The handlers pass \<open>event.sender\<close>, which is
  always there, so the first guard of the source never returns;
  \<open>BrowserWindow.fromWebContents\<close> gives the window of a web contents, if any.
\<close>

definition isTrustedPopupWindow :: "Env \<Rightarrow> WebContentsEventManager \<Rightarrow> nat \<Rightarrow> bool" where
  "isTrustedPopupWindow env m webContents =
     (case popupWindow m of
        None \<Rightarrow> False
      | Some w \<Rightarrow> fromWebContents env webContents = Some (winId w))"

text \<open>\<open>this.customLogins[contentID]?.inProgress\<close>, as a condition.\<close>

definition loginInProgress :: "WebContentsEventManager \<Rightarrow> nat \<Rightarrow> bool" where
  "loginInProgress m contentID =
     (case customLogins m contentID of None \<Rightarrow> False | Some cl \<Rightarrow> inProgress cl)"

text \<open>
  \<open>callID && urlUtils.isCallsPopOutURL(serverURL, parsedURL, callID)\<close>, where
  \<open>callID\<close> is \<open>WindowManager.callsWidgetWindow?.getCallID()\<close>.
\<close>

definition activeCallPopOut :: "Env \<Rightarrow> URL \<Rightarrow> URL option \<Rightarrow> bool" where
  "activeCallPopOut env serverURL parsedURL =
     (case getCallID env of
        None \<Rightarrow> False
      | Some callID \<Rightarrow> truthy callID \<and> isCallsPopOutURL env serverURL parsedURL callID)"

text \<open>
  The listener \<open>generateWillNavigate\<close> returns, applied to the event's sender id
  and URL. It does not change the manager. The result is the effects made and
  \<open>Some TypeError\<close> when the listener raised (\<open>parsedURL.protocol\<close> on an
  unparsed URL), \<open>None\<close> when it returned.
\<close>

definition generateWillNavigate ::
  "Env \<Rightarrow> WebContentsEventManager \<Rightarrow> nat \<Rightarrow> string \<Rightarrow> effect list \<times> error option" where
  "generateWillNavigate env m sender url =
     (let dbg = Log Debug ''webContentEvents.will-navigate'';
          contentID = sender;
          parsedURL = parseURL env url;
          serverURL = getServerURLFromWebContentsId env sender
      in
        if known serverURL (\<lambda>s. isTeamUrl env s parsedURL None \<or> isAdminUrl env s parsedURL
                                  \<or> isTrustedPopupWindow env m sender)
        then ([dbg], None)
        else if known serverURL (\<lambda>s. isChannelExportUrl env s parsedURL)
        then ([dbg], None)
        else if known serverURL (\<lambda>s. isCustomLoginURL env parsedURL s)
        then ([dbg], None)
        else
          (case parsedURL of
             None \<Rightarrow> ([dbg], Some TypeError)
           | Some p \<Rightarrow>
               if protocol p = ''mailto:'' then ([dbg], None)
               else if loginInProgress m contentID then ([dbg, FlushCookiesStore], None)
               else if known serverURL (\<lambda>s. activeCallPopOut env s parsedURL)
               then ([dbg], None)
               else ([dbg, Log Info (''Prevented desktop from navigating to: '' @ url),
                      PreventDefault], None)))"

text \<open>
  The listener \<open>generateDidStartNavigation\<close> returns. Both assignments read
  \<open>this.customLogins[contentID]\<close> without a guard, and so does the condition of the
  \<open>else if\<close> (its first conjunct \<open>serverURL\<close> is true there): with no entry for the
  id the listener raises.
\<close>

definition generateDidStartNavigation ::
  "Env \<Rightarrow> WebContentsEventManager \<Rightarrow> nat \<Rightarrow> string
     \<Rightarrow> effect list \<times> (error + WebContentsEventManager)" where
  "generateDidStartNavigation env m sender url =
     (let dbg = Log Debug ''webContentEvents.did-start-navigation'';
          contentID = sender;
          parsedURL = parseURL env url;
          serverURL = getServerURLFromWebContentsId env sender
      in
        (case serverURL of
           None \<Rightarrow> ([dbg], Inr m)
         | Some s \<Rightarrow>
             if \<not> isTrustedURL env parsedURL s then ([dbg], Inr m)
             else if isCustomLoginURL env parsedURL s then
               (case customLogins m contentID of
                  None \<Rightarrow> ([dbg], Inl TypeError)
                | Some cl \<Rightarrow>
                    ([dbg], Inr (m\<lparr>customLogins :=
                                    (customLogins m)(contentID \<mapsto> cl\<lparr>inProgress := True\<rparr>)\<rparr>)))
             else
               (case customLogins m contentID of
                  None \<Rightarrow> ([dbg], Inl TypeError)
                | Some cl \<Rightarrow>
                    if inProgress cl \<and> isInternalURL env s parsedURL
                    then ([dbg], Inr (m\<lparr>customLogins :=
                                    (customLogins m)(contentID \<mapsto> cl\<lparr>inProgress := False\<rparr>)\<rparr>))
                    else ([dbg], Inr m))))"

section \<open>The new-window policy\<close>

text \<open>
  The three path patterns of the source, each matched at the start of the path:
  \<^verbatim>\<open>/^(\/api\/v[3-4]\/public)*\/files\//\<close>,
  \<^verbatim>\<open>/^\/api\/v[3-4]\/image/\<close> and \<^verbatim>\<open>/^\/help\//\<close>.
\<close>

definition startsWith :: "string \<Rightarrow> string \<Rightarrow> bool" where
  "startsWith t pre = (take (length pre) t = pre)"

function matchPublicFiles :: "string \<Rightarrow> bool" where
  "matchPublicFiles t =
     (if startsWith t ''/files/'' then True
      else if startsWith t ''/api/v3/public'' \<or> startsWith t ''/api/v4/public''
      then matchPublicFiles (drop 14 t)
      else False)"
  by pat_completeness auto
termination
proof (relation "measure length")
  show "wf (measure length)" by simp
next
  fix t :: string
  assume "startsWith t ''/api/v3/public'' \<or> startsWith t ''/api/v4/public''"
  then have "t \<noteq> []" by (auto simp: startsWith_def)
  then show "(drop 14 t, t) \<in> measure length" by simp
qed

declare matchPublicFiles.simps [simp del]

definition matchImageProxy :: "string \<Rightarrow> bool" where
  "matchImageProxy t = (startsWith t ''/api/v3/image'' \<or> startsWith t ''/api/v4/image'')"

definition matchHelp :: "string \<Rightarrow> bool" where
  "matchHelp t = startsWith t ''/help/''"

text \<open>\<open>denyNewWindow\<close>, the window-open handler of the popup itself.\<close>

definition denyNewWindow :: "string \<Rightarrow> action \<times> effect list" where
  "denyNewWindow url =
     (Deny, [Log Warn (''Prevented popup window to open a new window to '' @ url @ ''.'')])"

text \<open>
  The popup the branch below works on: the existing one, or a new
  \<open>BrowserWindow\<close> with the handlers the source attaches. \<open>fresh\<close> is the identity
  of the window the constructor would return; a new window has shown no page, so its
  \<open>getURL()\<close> is the empty string.
\<close>

definition ensurePopup ::
  "bool option \<Rightarrow> nat \<Rightarrow> WebContentsEventManager \<Rightarrow> BrowserWindow \<times> effect list" where
  "ensurePopup spellcheck fresh m =
     (case popupWindow m of
        Some w \<Rightarrow> (w, [])
      | None \<Rightarrow>
          (\<lparr>winId = fresh, getURL = []\<rparr>,
           [NewBrowserWindow fresh (case spellcheck of None \<Rightarrow> True | Some b \<Rightarrow> b),
            SetWindowOpenHandlerDeny fresh, OnceReadyToShow fresh, OnceClosed fresh]))"

text \<open>
  The handler \<open>generateNewWindowListener(webContentsId, spellcheck)\<close> returns,
  applied to \<open>details.url\<close>: the action returned, the effects made and the manager
  afterwards.
\<close>

definition generateNewWindowListener ::
  "Env \<Rightarrow> nat \<Rightarrow> bool option \<Rightarrow> nat \<Rightarrow> WebContentsEventManager \<Rightarrow> string
     \<Rightarrow> action \<times> effect list \<times> WebContentsEventManager" where
  "generateNewWindowListener env webContentsId spellcheck fresh m url =
     (let dbg = Log Debug ''webContentEvents.new-window'' in
      case parseURL env url of
        None \<Rightarrow> (Deny, [dbg, Log Warn (''Ignoring non-url '' @ url)], m)
      | Some parsedURL \<Rightarrow>
          if protocol parsedURL = ''devtools:'' then (Allow, [dbg], m)
          else if protocol parsedURL \<noteq> ''http:'' \<and> protocol parsedURL \<noteq> ''https:''
                  \<and> protocol parsedURL \<noteq> scheme env @ '':''
          then (Deny, [dbg, HandleDialogEvent (protocol parsedURL) url], m)
          else if \<not> isValidURI env url then (Deny, [dbg, OpenExternal url], m)
          else
            (case getServerURLFromWebContentsId env webContentsId of
               None \<Rightarrow> (Deny, [dbg, OpenExternal url], m)
             | Some serverURL \<Rightarrow>
                 if matchPublicFiles (pathname parsedURL) then (Deny, [dbg, OpenExternal url], m)
                 else if matchImageProxy (pathname parsedURL)
                 then (Deny, [dbg, OpenExternal url], m)
                 else if matchHelp (pathname parsedURL) then (Deny, [dbg, OpenExternal url], m)
                 else if isTeamUrl env serverURL (Some parsedURL) (Some True)
                 then (Deny, [dbg, ShowMainWindow parsedURL], m)
                 else if isAdminUrl env serverURL (Some parsedURL)
                 then (Deny,
                       [dbg, Log Info (url @ '' is an admin console page, preventing to open a new window'')],
                       m)
                 else if (case popupWindow m of None \<Rightarrow> False | Some w \<Rightarrow> getURL w = url)
                 then (Deny,
                       [dbg, Log Info (''Popup window already open at provided url: '' @ url)], m)
                 else if isPluginUrl env serverURL (Some parsedURL)
                         \<or> isManagedResource env serverURL (Some parsedURL)
                 then
                   (let (w, created) = ensurePopup spellcheck fresh m;
                        load = (if isManagedResource env serverURL (Some parsedURL)
                                then LoadURL (winId w) url None
                                else LoadURL (winId w) url (Some (composeUserAgent env)))
                    in (Deny, [dbg] @ created @ [load, ContextMenuReload (winId w)],
                        m\<lparr>popupWindow := Some w\<rparr>))
                 else (Deny, [dbg, OpenExternal url], m)))"

section \<open>Registration\<close>

text \<open>
  \<open>addWebContentsEventListeners(contents, ...)\<close>, on the id of \<open>contents\<close>: the
  custom-login record of the id is (re)initialised first, a stored detachment callback
  is called, the listeners are attached and the new callback is stored.
\<close>

definition addWebContentsEventListeners ::
  "WebContentsEventManager \<Rightarrow> nat \<Rightarrow> effect list \<times> WebContentsEventManager" where
  "addWebContentsEventListeners m contentsId =
     (let m1 = m\<lparr>customLogins := (customLogins m)(contentsId \<mapsto> \<lparr>inProgress = False\<rparr>)\<rparr>;
          detach = (if listeners m1 contentsId then [DetachListeners contentsId] else [])
      in (detach @ [AttachListeners contentsId],
          m1\<lparr>listeners := (listeners m1)(contentsId := True)\<rparr>))"

section \<open>The manager over a run of events\<close>

text \<open>
  The manager together with the host's side of it: \<open>live\<close> lists the windows the
  manager constructed that have not been closed, \<open>closedOnce\<close> the windows on which a
  one-shot \<open>closed\<close> listener of the manager is registered and has not run,
  \<open>nextId\<close> is the identity the next constructed window gets.
\<close>

record System =
  manager :: WebContentsEventManager
  live :: "nat list"
  closedOnce :: "nat list"
  nextId :: nat

definition initialSystem :: System where
  "initialSystem = \<lparr>manager = newManager, live = [], closedOnce = [], nextId = 0\<rparr>"

text \<open>
  What happens to the system: \<open>addWebContentsEventListeners\<close> is called on a view, a
  navigation starts in a view, a view requests a window (its id, the spellcheck setting
  its handler was generated with, the URL), the popup shows another page, a window
  closes.
\<close>

datatype event =
    ListenersAdded nat
  | DidStartNavigation nat string
  | WindowOpen nat "bool option" string
  | PopupNavigated string
  | WindowClosed nat

text \<open>
  The windows an effect list constructs, and the windows on which it registers the
  one-shot \<open>closed\<close> listener \<open>() => {this.popupWindow = undefined}\<close>.
\<close>

fun constructed :: "effect list \<Rightarrow> nat list" where
  "constructed [] = []"
| "constructed (NewBrowserWindow w b # es) = w # constructed es"
| "constructed (e # es) = constructed es"

fun onceClosed :: "effect list \<Rightarrow> nat list" where
  "onceClosed [] = []"
| "onceClosed (OnceClosed w # es) = w # onceClosed es"
| "onceClosed (e # es) = onceClosed es"

text \<open>
  One event.
  \<^item> The listener of \<open>did-start-navigation\<close> is attached to a view only inside
    \<open>addWebContentsEventListeners\<close> (line 268), so the event reaches the tracker only
    for a view with an entry in \<open>listeners\<close>; a raise of the tracker leaves the manager
    as it was. A window-open request is taken from any view.
  \<^item> A closing window leaves \<open>live\<close> and the host emits its \<open>closed\<close> signal. If the
    manager's one-shot listener is registered on the window it runs, clearing
    \<open>popupWindow\<close>, and is consumed; otherwise the reference stays as it is. A window
    that is not live cannot close.
\<close>

fun step :: "Env \<Rightarrow> System \<Rightarrow> event \<Rightarrow> System" where
  "step env sys (ListenersAdded contentsId) =
     sys\<lparr>manager := snd (addWebContentsEventListeners (manager sys) contentsId)\<rparr>"
| "step env sys (DidStartNavigation sender url) =
     (if listeners (manager sys) sender
      then (case snd (generateDidStartNavigation env (manager sys) sender url) of
              Inl e \<Rightarrow> sys
            | Inr m' \<Rightarrow> sys\<lparr>manager := m'\<rparr>)
      else sys)"
| "step env sys (WindowOpen webContentsId spellcheck url) =
     (case generateNewWindowListener env webContentsId spellcheck (nextId sys) (manager sys) url of
        (a, effs, m') \<Rightarrow>
          sys\<lparr>manager := m',
              live := constructed effs @ live sys,
              closedOnce := onceClosed effs @ closedOnce sys,
              nextId := nextId sys + length (constructed effs)\<rparr>)"
| "step env sys (PopupNavigated url) =
     (case popupWindow (manager sys) of
        None \<Rightarrow> sys
      | Some w \<Rightarrow> sys\<lparr>manager := (manager sys)\<lparr>popupWindow := Some (w\<lparr>getURL := url\<rparr>)\<rparr>\<rparr>)"
| "step env sys (WindowClosed w) =
     (if w \<in> set (live sys)
      then (if w \<in> set (closedOnce sys)
            then sys\<lparr>manager := (manager sys)\<lparr>popupWindow := None\<rparr>,
                     live := removeAll w (live sys),
                     closedOnce := removeAll w (closedOnce sys)\<rparr>
            else sys\<lparr>live := removeAll w (live sys)\<rparr>)
      else sys)"

text \<open>
  A run of events. Each event comes with the collaborators' answers at its time: the
  servers and the classification of URLs may change between two events.
\<close>

fun run :: "System \<Rightarrow> (Env \<times> event) list \<Rightarrow> System" where
  "run sys [] = sys"
| "run sys ((env, e) # es) = run (step env sys e) es"

text \<open>
  Either the manager refers to no popup and no window is live, or the popup it refers
  to is the only live window and the \<open>closed\<close> listener is pending on it.
\<close>

definition popupInvariant :: "System \<Rightarrow> bool" where
  "popupInvariant sys =
     (case popupWindow (manager sys) of
        None \<Rightarrow> live sys = []
      | Some w \<Rightarrow> live sys = [winId w] \<and> winId w \<in> set (closedOnce sys))"

section \<open>Reading the effects\<close>

fun isOpenExternal :: "effect \<Rightarrow> bool" where
  "isOpenExternal (OpenExternal u) = True"
| "isOpenExternal e = False"

fun isLoadURL :: "effect \<Rightarrow> bool" where
  "isLoadURL (LoadURL w u ua) = True"
| "isLoadURL e = False"

fun isHandleDialogEvent :: "effect \<Rightarrow> bool" where
  "isHandleDialogEvent (HandleDialogEvent p u) = True"
| "isHandleDialogEvent e = False"

section \<open>A concrete server for the scenarios\<close>

text \<open>
  The server \<open>https://team.example.com\<close> of the scenarios, observed by the view with
  web contents id 1; the view with id 2 has no server. The parser knows the URLs of
  the table and rejects every other text. The classifiers decide by the parsed path.
\<close>

definition mkURL :: "string \<Rightarrow> string \<Rightarrow> string \<Rightarrow> string \<times> URL" where
  "mkURL proto rest path = (proto @ rest @ path, \<lparr>href = proto @ rest @ path, protocol = proto, pathname = path\<rparr>)"

definition teamServer :: URL where
  "teamServer = \<lparr>href = ''https://team.example.com/'', protocol = ''https:'', pathname = ''/''\<rparr>"

definition demoParse :: "string \<Rightarrow> URL option" where
  "demoParse = map_of
     [mkURL ''https:'' ''//team.example.com'' ''/myteam/channels/town-square'',
      mkURL ''https:'' ''//team.example.com'' ''/admin_console/x'',
      mkURL ''https:'' ''//team.example.com'' ''/oauth/gitlab/login'',
      mkURL ''https:'' ''//team.example.com'' ''/help/about'',
      mkURL ''https:'' ''//team.example.com'' ''/plugins/focalboard/board'',
      mkURL ''https:'' ''//team.example.com'' ''/landing'',
      mkURL ''https:'' ''//team.example.com'' ''/bad uri'',
      mkURL ''https:'' ''//plugins.example.com'' ''/oauth/start'',
      mkURL ''https:'' ''//elsewhere.example.org'' ''/'',
      mkURL ''devtools:'' ''//devtools'' ''/bundled/inspector.html'',
      mkURL ''tel:'' [] ''5550100'']"

definition pathIs :: "(string \<Rightarrow> bool) \<Rightarrow> URL option \<Rightarrow> bool" where
  "pathIs c u = (case u of None \<Rightarrow> False | Some q \<Rightarrow> c (pathname q))"

definition onTeam :: "URL option \<Rightarrow> bool" where
  "onTeam u = (case u of None \<Rightarrow> False | Some q \<Rightarrow> startsWith (href q) ''https://team.example.com/'')"

definition demoEnv :: Env where
  "demoEnv =
     \<lparr>parseURL = demoParse,
      isValidURI = (\<lambda>u. CHR '' '' \<notin> set u),
      isTeamUrl = (\<lambda>s u api. onTeam u \<and> pathIs (\<lambda>t. startsWith t ''/myteam/'') u),
      isAdminUrl = (\<lambda>s u. onTeam u \<and> pathIs (\<lambda>t. startsWith t ''/admin_console/'') u),
      isChannelExportUrl = (\<lambda>s u. False),
      isCustomLoginURL = (\<lambda>u s. onTeam u \<and> pathIs (\<lambda>t. startsWith t ''/oauth/'') u),
      isTrustedURL = (\<lambda>u s. onTeam u),
      isInternalURL = (\<lambda>s u. onTeam u),
      isCallsPopOutURL = (\<lambda>s u c. False),
      isPluginUrl = (\<lambda>s u. onTeam u \<and> pathIs (\<lambda>t. startsWith t ''/plugins/'') u
                           \<or> pathIs (\<lambda>t. t = ''/oauth/start'') u),
      isManagedResource = (\<lambda>s u. onTeam u \<and> pathIs (\<lambda>t. startsWith t ''/plugins/'') u),
      getServerURLFromWebContentsId = (\<lambda>i. if i = 1 then Some teamServer else None),
      getCallID = None,
      fromWebContents = (\<lambda>c. None),
      scheme = ''mattermost'',
      composeUserAgent = ''Mozilla/5.0 Chrome/100.0 Mattermost/5.0''\<rparr>"

text \<open>The page of the developer tools, as the parser returns it.\<close>

definition inspectorURL :: URL where
  "inspectorURL =
     \<lparr>href = ''devtools://devtools/bundled/inspector.html'', protocol = ''devtools:'',
      pathname = ''/bundled/inspector.html''\<rparr>"

text \<open>A manager whose popup (window 7) shows the help page.\<close>

definition helpPopupManager :: WebContentsEventManager where
  "helpPopupManager =
     newManager\<lparr>popupWindow := Some \<lparr>winId = 7, getURL = ''https://team.example.com/help/about''\<rparr>\<rparr>"

text \<open>A manager whose popup (window 7) shows the OAuth page of a plugin.\<close>

definition oauthPopupManager :: WebContentsEventManager where
  "oauthPopupManager =
     newManager\<lparr>popupWindow := Some \<lparr>winId = 7, getURL = ''https://plugins.example.com/oauth/start''\<rparr>\<rparr>"

text \<open>A manager in which the view \<open>c\<close> is in the middle of a custom login.\<close>

definition loginManager :: "nat \<Rightarrow> WebContentsEventManager" where
  "loginManager c = newManager\<lparr>customLogins := [c \<mapsto> \<lparr>inProgress = True\<rparr>]\<rparr>"

text \<open>
  A run of the system: the view 1 is registered and requests two popups, the popup
  arrives at the second page, the view requests the page the popup shows, the popup
  closes, and the view requests a popup again.
\<close>

definition demoRun :: "(Env \<times> event) list" where
  "demoRun = map (Pair demoEnv)
     [ListenersAdded 1,
      WindowOpen 1 None ''https://plugins.example.com/oauth/start'',
      WindowOpen 1 None ''https://team.example.com/plugins/focalboard/board'',
      PopupNavigated ''https://team.example.com/plugins/focalboard/board'',
      WindowOpen 1 None ''https://team.example.com/plugins/focalboard/board'',
      WindowClosed 0,
      WindowOpen 1 None ''https://team.example.com/plugins/focalboard/board'']"

text \<open>A run in which the view 1 is registered and starts a custom login.\<close>

definition loginRun :: "(Env \<times> event) list" where
  "loginRun = map (Pair demoEnv)
     [ListenersAdded 1,
      DidStartNavigation 1 ''https://team.example.com/oauth/gitlab/login'']"

section \<open>Properties of the will-navigate handler\<close>

lemmas demo_defs = demoEnv_def demoParse_def mkURL_def teamServer_def startsWith_def
  matchImageProxy_def matchHelp_def onTeam_def pathIs_def newManager_def known_def
  isTrustedPopupWindow_def loginInProgress_def activeCallPopOut_def truthy_def
  helpPopupManager_def oauthPopupManager_def loginManager_def matchPublicFiles.simps

text \<open>
  Where the destination URL parses, the handler follows the ordered rules. For a view
  whose server origin is known: the server's team URL and admin-console URL are
  allowed, and a destination that none of the allow rules matches (team, admin, trusted
  popup, channel export, custom login, \<open>mailto:\<close>, login in progress, calls pop-out) is
  logged and cancelled with \<open>preventDefault\<close>.
\<close>

lemma will_navigate_policy_parsed:
  assumes "getServerURLFromWebContentsId env sender = Some s"
  shows "((isTeamUrl env s (parseURL env url) None \<or> isAdminUrl env s (parseURL env url))
            \<longrightarrow> generateWillNavigate env m sender url
                  = ([Log Debug ''webContentEvents.will-navigate''], None))
       \<and> (parseURL env url = Some p
            \<and> \<not> isTeamUrl env s (Some p) None
            \<and> \<not> isAdminUrl env s (Some p)
            \<and> \<not> isTrustedPopupWindow env m sender
            \<and> \<not> isChannelExportUrl env s (Some p)
            \<and> \<not> isCustomLoginURL env (Some p) s
            \<and> protocol p \<noteq> ''mailto:''
            \<and> \<not> loginInProgress m sender
            \<and> \<not> activeCallPopOut env s (Some p)
            \<longrightarrow> generateWillNavigate env m sender url
                  = ([Log Debug ''webContentEvents.will-navigate'',
                      Log Info (''Prevented desktop from navigating to: '' @ url),
                      PreventDefault], None))"
  using assms by (simp add: generateWillNavigate_def known_def)

text \<open>
  C1. The claim: for every will-navigate event from a view whose server origin is
  known, a destination that none of the allow rules matches is cancelled with
  \<open>preventDefault\<close>. The code misses this for a URL the parser rejects. The view 1
  has a known server, the text \<open>not a url\<close> is rejected by the parser, none of the
  rules that take the unparsed URL matches, no login is in progress and no call is
  active: reading \<open>parsedURL.protocol\<close> (line 67) raises a \<open>TypeError\<close> and
  \<open>preventDefault\<close> is not called, so the navigation is not cancelled. The window-open
  policy of the same file guards the unparsed URL (lines 115-118).
\<close>

theorem C1_unparsed_url_not_prevented:
  "getServerURLFromWebContentsId demoEnv 1 = Some teamServer
   \<and> parseURL demoEnv ''not a url'' = None
   \<and> \<not> isTeamUrl demoEnv teamServer None None
   \<and> \<not> isAdminUrl demoEnv teamServer None
   \<and> \<not> isTrustedPopupWindow demoEnv newManager 1
   \<and> \<not> isChannelExportUrl demoEnv teamServer None
   \<and> \<not> isCustomLoginURL demoEnv None teamServer
   \<and> \<not> loginInProgress newManager 1
   \<and> \<not> activeCallPopOut demoEnv teamServer None
   \<and> generateWillNavigate demoEnv newManager 1 ''not a url''
       = ([Log Debug ''webContentEvents.will-navigate''], Some TypeError)
   \<and> PreventDefault \<notin> set (fst (generateWillNavigate demoEnv newManager 1 ''not a url''))"
  by (simp add: generateWillNavigate_def demo_defs)

text \<open>
  Where the destination URL parses: for a view whose custom-login \<open>inProgress\<close> flag
  is set and a destination that matches none of the earlier allow rules (team, admin,
  trusted popup, channel export, custom login, \<open>mailto:\<close>), the handler flushes the
  cookie store of the default session and returns without calling
  \<open>preventDefault\<close>; also when no server origin is resolved (second conjunct).
\<close>

lemma login_in_progress_flushes_parsed:
  "(loginInProgress m sender
      \<and> parseURL env url = Some p
      \<and> \<not> known (getServerURLFromWebContentsId env sender)
             (\<lambda>s. isTeamUrl env s (Some p) None \<or> isAdminUrl env s (Some p)
                    \<or> isTrustedPopupWindow env m sender)
      \<and> \<not> known (getServerURLFromWebContentsId env sender) (\<lambda>s. isChannelExportUrl env s (Some p))
      \<and> \<not> known (getServerURLFromWebContentsId env sender) (\<lambda>s. isCustomLoginURL env (Some p) s)
      \<and> protocol p \<noteq> ''mailto:''
      \<longrightarrow> generateWillNavigate env m sender url
            = ([Log Debug ''webContentEvents.will-navigate'', FlushCookiesStore], None))
   \<and> (loginInProgress m sender
      \<and> parseURL env url = Some p
      \<and> getServerURLFromWebContentsId env sender = None
      \<and> protocol p \<noteq> ''mailto:''
      \<longrightarrow> generateWillNavigate env m sender url
            = ([Log Debug ''webContentEvents.will-navigate'', FlushCookiesStore], None))"
  by (simp add: generateWillNavigate_def known_def)

text \<open>
  C8. The claim: for every will-navigate event from a view whose custom-login flag is
  set and whose destination matches none of the earlier allow rules, the handler allows
  the navigation and flushes the cookie store, also with no server origin. The code
  misses this for a URL the parser rejects. The view 2 has its flag set and no server
  (so none of the origin rules matches) and the text \<open>not a url\<close> is rejected by the
  parser: the \<open>mailto:\<close> test reads \<open>parsedURL.protocol\<close> (line 67) before the flag
  is looked at (line 70), the handler raises a \<open>TypeError\<close> and the cookie store is
  not flushed. This is the defect of C1.
\<close>

theorem C8_unparsed_url_not_flushed:
  "loginInProgress (loginManager 2) 2
   \<and> getServerURLFromWebContentsId demoEnv 2 = None
   \<and> parseURL demoEnv ''not a url'' = None
   \<and> generateWillNavigate demoEnv (loginManager 2) 2 ''not a url''
       = ([Log Debug ''webContentEvents.will-navigate''], Some TypeError)
   \<and> FlushCookiesStore \<notin> set (fst (generateWillNavigate demoEnv (loginManager 2) 2 ''not a url''))"
  by (simp add: generateWillNavigate_def demo_defs)

section \<open>Properties of the did-start-navigation handler\<close>

text \<open>
  The tracker is attached to a view only by \<open>addWebContentsEventListeners\<close>, which
  creates the custom-login record of the view first, and nothing removes a record: in
  every state a run reaches, a view with an entry in \<open>listeners\<close> has a record.
\<close>

lemma listener_keeps_records_case:
  "(case generateNewWindowListener env webContentsId spellcheck fresh m url of
      (a, effs, m') \<Rightarrow> customLogins m' = customLogins m \<and> listeners m' = listeners m)"
  by (simp add: generateNewWindowListener_def ensurePopup_def Let_def split: option.splits)

lemma listener_keeps_records:
  "customLogins (snd (snd (generateNewWindowListener env webContentsId spellcheck fresh m url)))
     = customLogins m
   \<and> listeners (snd (snd (generateNewWindowListener env webContentsId spellcheck fresh m url)))
     = listeners m"
  using listener_keeps_records_case [where env = env and webContentsId = webContentsId
      and spellcheck = spellcheck and fresh = fresh and m = m and url = url]
  by (simp split: prod.splits)

lemma did_start_keeps_registered:
  assumes "generateDidStartNavigation env m sender url = (effs, Inr m')"
  shows "listeners m' = listeners m
       \<and> popupWindow m' = popupWindow m
       \<and> (\<forall>c. customLogins m c \<noteq> None \<longrightarrow> customLogins m' c \<noteq> None)"
  using assms
  by (auto simp add: generateDidStartNavigation_def Let_def split: option.splits if_splits)

lemma step_registered:
  assumes "\<forall>c. listeners (manager sys) c \<longrightarrow> customLogins (manager sys) c \<noteq> None"
  shows "\<forall>c. listeners (manager (step env sys e)) c
             \<longrightarrow> customLogins (manager (step env sys e)) c \<noteq> None"
proof (cases e)
  case (ListenersAdded c)
  with assms show ?thesis
    by (simp add: addWebContentsEventListeners_def Let_def)
next
  case (DidStartNavigation c url)
  show ?thesis
  proof (cases "generateDidStartNavigation env (manager sys) c url")
    case (Pair effs r)
    show ?thesis
    proof (cases r)
      case (Inl err)
      with Pair DidStartNavigation assms show ?thesis by simp
    next
      case (Inr m')
      with Pair have "generateDidStartNavigation env (manager sys) c url = (effs, Inr m')"
        by simp
      from did_start_keeps_registered [OF this] assms Pair Inr DidStartNavigation
      show ?thesis by simp
    qed
  qed
next
  case (WindowOpen c sp url)
  obtain a effs m' where
    r: "generateNewWindowListener env c sp (nextId sys) (manager sys) url = (a, effs, m')"
    by (cases "generateNewWindowListener env c sp (nextId sys) (manager sys) url")
  from listener_keeps_records [of env c sp "nextId sys" "manager sys" url] r
  have "customLogins m' = customLogins (manager sys) \<and> listeners m' = listeners (manager sys)"
    by simp
  with assms r WindowOpen show ?thesis by simp
next
  case (PopupNavigated url)
  with assms show ?thesis by (simp split: option.splits)
next
  case (WindowClosed w)
  with assms show ?thesis by simp
qed

lemma run_registered:
  "\<forall>c. listeners (manager sys) c \<longrightarrow> customLogins (manager sys) c \<noteq> None
   \<Longrightarrow> \<forall>c. listeners (manager (run sys evs)) c
             \<longrightarrow> customLogins (manager (run sys evs)) c \<noteq> None"
proof (induction evs arbitrary: sys)
  case Nil
  then show ?case by simp
next
  case (Cons ev evs)
  obtain env e where ev: "ev = (env, e)" by (cases ev)
  from Cons.prems have "\<forall>c. listeners (manager (step env sys e)) c
             \<longrightarrow> customLogins (manager (step env sys e)) c \<noteq> None"
    by (rule step_registered)
  from Cons.IH [OF this] ev show ?case by simp
qed

lemma registered_has_record:
  assumes "listeners (manager (run initialSystem evs)) sender"
  shows "\<exists>cl. customLogins (manager (run initialSystem evs)) sender = Some cl"
proof -
  have "\<forall>c. listeners (manager initialSystem) c \<longrightarrow> customLogins (manager initialSystem) c \<noteq> None"
    by (simp add: initialSystem_def newManager_def)
  from run_registered [OF this, of evs] assms show ?thesis by auto
qed

text \<open>
  C2. For every did-start-navigation event: if no server origin is known for the view
  or the destination is not trusted for that origin, the manager (and so the flag) is
  unchanged; if the destination is trusted and matches the server's custom-login
  pattern, the flag of the view becomes true; if the destination is trusted, does not
  match the pattern, the flag of the view was true and the destination is an internal
  URL of the server, the flag becomes false. In the last two cases nothing else in the
  manager changes. The event reaches the tracker in a state \<open>m\<close> that a run of the
  system reached and for a view whose listeners were added; the second part rests on
  that, the other two hold in any state.
\<close>

theorem C2_login_flow_tracker:
  "((getServerURLFromWebContentsId env sender = None
       \<or> (getServerURLFromWebContentsId env sender = Some s \<and> \<not> isTrustedURL env (parseURL env url) s))
      \<longrightarrow> generateDidStartNavigation env m sender url
            = ([Log Debug ''webContentEvents.did-start-navigation''], Inr m))
   \<and> (m = manager (run initialSystem evs) \<and> listeners m sender
       \<and> getServerURLFromWebContentsId env sender = Some s
       \<and> isTrustedURL env (parseURL env url) s
       \<and> isCustomLoginURL env (parseURL env url) s
      \<longrightarrow> (\<exists>m'. generateDidStartNavigation env m sender url
                   = ([Log Debug ''webContentEvents.did-start-navigation''], Inr m')
               \<and> loginInProgress m' sender
               \<and> (\<forall>c. c \<noteq> sender \<longrightarrow> customLogins m' c = customLogins m c)
               \<and> listeners m' = listeners m \<and> popupWindow m' = popupWindow m))
   \<and> (getServerURLFromWebContentsId env sender = Some s
       \<and> isTrustedURL env (parseURL env url) s
       \<and> \<not> isCustomLoginURL env (parseURL env url) s
       \<and> loginInProgress m sender
       \<and> isInternalURL env s (parseURL env url)
      \<longrightarrow> (\<exists>m'. generateDidStartNavigation env m sender url
                   = ([Log Debug ''webContentEvents.did-start-navigation''], Inr m')
               \<and> \<not> loginInProgress m' sender
               \<and> (\<forall>c. c \<noteq> sender \<longrightarrow> customLogins m' c = customLogins m c)
               \<and> listeners m' = listeners m \<and> popupWindow m' = popupWindow m))"
proof (intro conjI impI)
  assume "getServerURLFromWebContentsId env sender = None
       \<or> (getServerURLFromWebContentsId env sender = Some s \<and> \<not> isTrustedURL env (parseURL env url) s)"
  then show "generateDidStartNavigation env m sender url
            = ([Log Debug ''webContentEvents.did-start-navigation''], Inr m)"
    by (auto simp add: generateDidStartNavigation_def)
next
  assume h: "m = manager (run initialSystem evs) \<and> listeners m sender
       \<and> getServerURLFromWebContentsId env sender = Some s
       \<and> isTrustedURL env (parseURL env url) s
       \<and> isCustomLoginURL env (parseURL env url) s"
  then obtain cl where "customLogins m sender = Some cl"
    using registered_has_record [of evs sender] by auto
  with h show "\<exists>m'. generateDidStartNavigation env m sender url
                   = ([Log Debug ''webContentEvents.did-start-navigation''], Inr m')
               \<and> loginInProgress m' sender
               \<and> (\<forall>c. c \<noteq> sender \<longrightarrow> customLogins m' c = customLogins m c)
               \<and> listeners m' = listeners m \<and> popupWindow m' = popupWindow m"
    by (simp add: generateDidStartNavigation_def loginInProgress_def)
next
  assume h: "getServerURLFromWebContentsId env sender = Some s
       \<and> isTrustedURL env (parseURL env url) s
       \<and> \<not> isCustomLoginURL env (parseURL env url) s
       \<and> loginInProgress m sender
       \<and> isInternalURL env s (parseURL env url)"
  then obtain cl where "customLogins m sender = Some cl" "inProgress cl"
    by (auto simp add: loginInProgress_def split: option.splits)
  with h show "\<exists>m'. generateDidStartNavigation env m sender url
                   = ([Log Debug ''webContentEvents.did-start-navigation''], Inr m')
               \<and> \<not> loginInProgress m' sender
               \<and> (\<forall>c. c \<noteq> sender \<longrightarrow> customLogins m' c = customLogins m c)
               \<and> listeners m' = listeners m \<and> popupWindow m' = popupWindow m"
    by (simp add: generateDidStartNavigation_def loginInProgress_def)
qed

text \<open>
  The view 1 was registered and has started a custom login: a navigation of the view 2
  (no server) changes nothing, the custom-login URL leaves the flag of the view 1 set,
  an internal page clears it.
\<close>

theorem C2_login_flow_tracker_witness:
  "listeners (manager (run initialSystem loginRun)) 1
   \<and> loginInProgress (manager (run initialSystem loginRun)) 1
   \<and> generateDidStartNavigation demoEnv (manager (run initialSystem loginRun)) 2
         ''https://team.example.com/landing''
       = ([Log Debug ''webContentEvents.did-start-navigation''],
          Inr (manager (run initialSystem loginRun)))
   \<and> (\<exists>m'. generateDidStartNavigation demoEnv (manager (run initialSystem loginRun)) 1
               ''https://team.example.com/oauth/gitlab/login''
             = ([Log Debug ''webContentEvents.did-start-navigation''], Inr m')
           \<and> loginInProgress m' 1)
   \<and> (\<exists>m'. generateDidStartNavigation demoEnv (manager (run initialSystem loginRun)) 1
               ''https://team.example.com/landing''
             = ([Log Debug ''webContentEvents.did-start-navigation''], Inr m')
           \<and> \<not> loginInProgress m' 1)"
proof -
  let ?m = "manager (run initialSystem loginRun)"
  have reg: "listeners ?m 1"
    by (simp add: loginRun_def initialSystem_def addWebContentsEventListeners_def
        generateDidStartNavigation_def demo_defs)
  have flag: "loginInProgress ?m 1"
    by (simp add: loginRun_def initialSystem_def addWebContentsEventListeners_def
        generateDidStartNavigation_def demo_defs)
  have nosrv: "getServerURLFromWebContentsId demoEnv 2 = None"
    by (simp add: demoEnv_def)
  have srv: "getServerURLFromWebContentsId demoEnv 1 = Some teamServer"
    by (simp add: demoEnv_def)
  have login: "isTrustedURL demoEnv (parseURL demoEnv ''https://team.example.com/oauth/gitlab/login'') teamServer
     \<and> isCustomLoginURL demoEnv (parseURL demoEnv ''https://team.example.com/oauth/gitlab/login'') teamServer"
    by (simp add: demo_defs)
  have landing: "isTrustedURL demoEnv (parseURL demoEnv ''https://team.example.com/landing'') teamServer
     \<and> \<not> isCustomLoginURL demoEnv (parseURL demoEnv ''https://team.example.com/landing'') teamServer
     \<and> isInternalURL demoEnv teamServer (parseURL demoEnv ''https://team.example.com/landing'')"
    by (simp add: demo_defs)
  from C2_login_flow_tracker [where env = demoEnv and sender = 2 and m = ?m
      and url = "''https://team.example.com/landing''"] nosrv
  have a: "generateDidStartNavigation demoEnv ?m 2 ''https://team.example.com/landing''
       = ([Log Debug ''webContentEvents.did-start-navigation''], Inr ?m)"
    by blast
  from C2_login_flow_tracker [where env = demoEnv and sender = 1 and m = ?m and evs = loginRun
      and s = teamServer and url = "''https://team.example.com/oauth/gitlab/login''"]
    reg srv login
  have b: "\<exists>m'. generateDidStartNavigation demoEnv ?m 1 ''https://team.example.com/oauth/gitlab/login''
             = ([Log Debug ''webContentEvents.did-start-navigation''], Inr m')
           \<and> loginInProgress m' 1"
    by blast
  from C2_login_flow_tracker [where env = demoEnv and sender = 1 and m = ?m
      and s = teamServer and url = "''https://team.example.com/landing''"]
    flag srv landing
  have c: "\<exists>m'. generateDidStartNavigation demoEnv ?m 1 ''https://team.example.com/landing''
             = ([Log Debug ''webContentEvents.did-start-navigation''], Inr m')
           \<and> \<not> loginInProgress m' 1"
    by blast
  from reg flag a b c show ?thesis by blast
qed

text \<open>
  C10. For a destination that is trusted for the view's known server origin, the
  did-start-navigation handler returns exactly when the view has a custom-login record:
  with no record it raises a \<open>TypeError\<close> (it is not a no-op).
  \<open>addWebContentsEventListeners\<close> creates the record, so after registration the
  handler returns.
\<close>

theorem C10_session_precondition:
  assumes "getServerURLFromWebContentsId env sender = Some s"
    and "isTrustedURL env (parseURL env url) s"
  shows "(customLogins m sender = None
            \<longrightarrow> generateDidStartNavigation env m sender url
                  = ([Log Debug ''webContentEvents.did-start-navigation''], Inl TypeError))
       \<and> ((\<exists>m'. snd (generateDidStartNavigation env m sender url) = Inr m')
            \<longleftrightarrow> customLogins m sender \<noteq> None)
       \<and> customLogins (snd (addWebContentsEventListeners m sender)) sender
            = Some \<lparr>inProgress = False\<rparr>
       \<and> (\<exists>m'. snd (generateDidStartNavigation env
                          (snd (addWebContentsEventListeners m sender)) sender url) = Inr m')"
  using assms
  by (auto simp add: generateDidStartNavigation_def addWebContentsEventListeners_def Let_def
      split: option.splits)

text \<open>A new manager raises on an internal page of the view 1; after registration it returns.\<close>

theorem C10_session_precondition_witness:
  "generateDidStartNavigation demoEnv newManager 1 ''https://team.example.com/landing''
     = ([Log Debug ''webContentEvents.did-start-navigation''], Inl TypeError)
   \<and> customLogins (snd (addWebContentsEventListeners newManager 1)) 1 = Some \<lparr>inProgress = False\<rparr>
   \<and> (\<exists>m'. snd (generateDidStartNavigation demoEnv (snd (addWebContentsEventListeners newManager 1)) 1
                  ''https://team.example.com/landing'') = Inr m')"
proof -
  have srv: "getServerURLFromWebContentsId demoEnv 1 = Some teamServer"
    by (simp add: demoEnv_def)
  have tr: "isTrustedURL demoEnv (parseURL demoEnv ''https://team.example.com/landing'') teamServer"
    by (simp add: demo_defs)
  have nocl: "customLogins newManager 1 = None"
    by (simp add: newManager_def)
  from C10_session_precondition [OF srv tr, where m = newManager] nocl
  show ?thesis by blast
qed

section \<open>Properties of the new-window policy\<close>

text \<open>With the popup reference set, the policy constructs no window and keeps the reference.\<close>

lemma listener_keeps_popup_case:
  assumes "popupWindow m = Some w"
  shows "(case generateNewWindowListener env webContentsId spellcheck fresh m url of
            (a, effs, m') \<Rightarrow> constructed effs = [] \<and> popupWindow m' = Some w)"
  using assms
  by (simp add: generateNewWindowListener_def ensurePopup_def Let_def split: option.splits)

lemma listener_keeps_popup:
  assumes "popupWindow m = Some w"
  shows "constructed (fst (snd (generateNewWindowListener env webContentsId spellcheck fresh m url))) = []
       \<and> popupWindow (snd (snd (generateNewWindowListener env webContentsId spellcheck fresh m url))) = Some w"
  using listener_keeps_popup_case [OF assms, where env = env and webContentsId = webContentsId
      and spellcheck = spellcheck and fresh = fresh and url = url]
  by (simp split: prod.splits)

text \<open>With the popup reference empty, the policy constructs no window or exactly the fresh one.\<close>

lemma listener_from_empty_case:
  assumes "popupWindow m = None"
  shows "(case generateNewWindowListener env webContentsId spellcheck fresh m url of
            (a, effs, m') \<Rightarrow>
              (constructed effs = [] \<and> popupWindow m' = None)
              \<or> (constructed effs = [fresh] \<and> popupWindow m' = Some \<lparr>winId = fresh, getURL = []\<rparr>))"
  using assms
  by (simp add: generateNewWindowListener_def ensurePopup_def Let_def split: option.splits)

lemma listener_from_empty:
  assumes "popupWindow m = None"
  shows "(constructed (fst (snd (generateNewWindowListener env webContentsId spellcheck fresh m url))) = []
          \<and> popupWindow (snd (snd (generateNewWindowListener env webContentsId spellcheck fresh m url))) = None)
       \<or> (constructed (fst (snd (generateNewWindowListener env webContentsId spellcheck fresh m url))) = [fresh]
          \<and> popupWindow (snd (snd (generateNewWindowListener env webContentsId spellcheck fresh m url)))
               = Some \<lparr>winId = fresh, getURL = []\<rparr>)"
  using listener_from_empty_case [OF assms, where env = env and webContentsId = webContentsId
      and spellcheck = spellcheck and fresh = fresh and url = url]
  by (simp split: prod.splits)

text \<open>
  C3. For every window-open request from a view with a known server origin whose URL
  parses with protocol \<open>http:\<close> or \<open>https:\<close>, passes the validity check, is no
  public-file, image-proxy or help path and not the team URL, and is the server's
  admin-console URL: the policy returns deny, the only effects are two log lines (the
  external browser is not invoked, no window is constructed, no URL is loaded) and the
  manager, with its popup reference, is unchanged.
\<close>

theorem C3_admin_console_denied:
  assumes "getServerURLFromWebContentsId env webContentsId = Some s"
    and "parseURL env url = Some p"
    and "protocol p = ''http:'' \<or> protocol p = ''https:''"
    and "isValidURI env url"
    and "\<not> matchPublicFiles (pathname p)"
    and "\<not> matchImageProxy (pathname p)"
    and "\<not> matchHelp (pathname p)"
    and "\<not> isTeamUrl env s (Some p) (Some True)"
    and "isAdminUrl env s (Some p)"
  shows "generateNewWindowListener env webContentsId spellcheck fresh m url
           = (Deny,
              [Log Debug ''webContentEvents.new-window'',
               Log Info (url @ '' is an admin console page, preventing to open a new window'')],
              m)
       \<and> filter isOpenExternal (fst (snd (generateNewWindowListener env webContentsId spellcheck fresh m url))) = []
       \<and> constructed (fst (snd (generateNewWindowListener env webContentsId spellcheck fresh m url))) = []
       \<and> filter isLoadURL (fst (snd (generateNewWindowListener env webContentsId spellcheck fresh m url))) = []"
proof -
  from assms(3) have proto: "protocol p \<noteq> ''devtools:''" by auto
  from assms proto
  have "generateNewWindowListener env webContentsId spellcheck fresh m url
           = (Deny,
              [Log Debug ''webContentEvents.new-window'',
               Log Info (url @ '' is an admin console page, preventing to open a new window'')],
              m)"
    by (auto simp add: generateNewWindowListener_def)
  then show ?thesis by simp
qed

text \<open>
  The scenario of the specification: origin \<open>https://team.example.com\<close>, destination
  \<open>https://team.example.com/admin_console/x\<close>.
\<close>

theorem C3_admin_console_denied_witness:
  "generateNewWindowListener demoEnv 1 None 0 newManager ''https://team.example.com/admin_console/x''
     = (Deny,
        [Log Debug ''webContentEvents.new-window'',
         Log Info ''https://team.example.com/admin_console/x is an admin console page, preventing to open a new window''],
        newManager)"
proof -
  let ?admin =
      "\<lparr>href = ''https://team.example.com/admin_console/x'',
        protocol = ''https:'', pathname = ''/admin_console/x''\<rparr>"
  have h: "getServerURLFromWebContentsId demoEnv 1 = Some teamServer"
    "parseURL demoEnv ''https://team.example.com/admin_console/x'' = Some ?admin"
    "protocol ?admin = ''http:''
     \<or> protocol ?admin = ''https:''"
    "isValidURI demoEnv ''https://team.example.com/admin_console/x''"
    "\<not> matchPublicFiles (pathname ?admin)"
    "\<not> matchImageProxy (pathname ?admin)"
    "\<not> matchHelp (pathname ?admin)"
    "\<not> isTeamUrl demoEnv teamServer (Some ?admin) (Some True)"
    "isAdminUrl demoEnv teamServer (Some ?admin)"
    by (simp_all add: demo_defs)
  from C3_admin_console_denied [OF h, of None 0 newManager] show ?thesis by simp
qed

text \<open>
  C4 (as amended). For every window-open request whose URL the parser rejects, the
  policy logs a warning and returns deny without opening the external browser. For
  every request whose URL parses with protocol \<open>http:\<close>, \<open>https:\<close> or the custom
  scheme (and not \<open>devtools:\<close>) and fails the validity check, the policy opens the URL
  in the external browser and returns deny.
\<close>

theorem C4_unparsed_and_invalid:
  "(parseURL env url = None
      \<longrightarrow> generateNewWindowListener env webContentsId spellcheck fresh m url
            = (Deny, [Log Debug ''webContentEvents.new-window'',
                      Log Warn (''Ignoring non-url '' @ url)], m))
   \<and> (parseURL env url = Some p
       \<and> protocol p \<noteq> ''devtools:''
       \<and> (protocol p = ''http:'' \<or> protocol p = ''https:'' \<or> protocol p = scheme env @ '':'')
       \<and> \<not> isValidURI env url
      \<longrightarrow> generateNewWindowListener env webContentsId spellcheck fresh m url
            = (Deny, [Log Debug ''webContentEvents.new-window'', OpenExternal url], m))"
  by (auto simp add: generateNewWindowListener_def)

text \<open>A text that is no URL is ignored; a URL with a blank in it goes to the browser.\<close>

theorem C4_unparsed_and_invalid_witness:
  "generateNewWindowListener demoEnv 1 None 0 newManager ''not a url''
     = (Deny, [Log Debug ''webContentEvents.new-window'',
               Log Warn ''Ignoring non-url not a url''], newManager)
   \<and> generateNewWindowListener demoEnv 1 None 0 newManager ''https://team.example.com/bad uri''
     = (Deny, [Log Debug ''webContentEvents.new-window'',
               OpenExternal ''https://team.example.com/bad uri''], newManager)"
proof -
  let ?bad =
      "\<lparr>href = ''https://team.example.com/bad uri'',
        protocol = ''https:'', pathname = ''/bad uri''\<rparr>"
  have unparsed: "parseURL demoEnv ''not a url'' = None"
    by (simp add: demo_defs)
  have invalid: "parseURL demoEnv ''https://team.example.com/bad uri''
       = Some ?bad
     \<and> \<not> isValidURI demoEnv ''https://team.example.com/bad uri''"
    by (simp add: demo_defs)
  from C4_unparsed_and_invalid [where env = demoEnv and url = "''not a url''"
      and webContentsId = 1 and spellcheck = None and fresh = 0 and m = newManager] unparsed
  have a: "generateNewWindowListener demoEnv 1 None 0 newManager ''not a url''
     = (Deny, [Log Debug ''webContentEvents.new-window'',
               Log Warn ''Ignoring non-url not a url''], newManager)"
    by simp
  from C4_unparsed_and_invalid [where env = demoEnv and url = "''https://team.example.com/bad uri''"
      and p = "?bad"
      and webContentsId = 1 and spellcheck = None and fresh = 0 and m = newManager] invalid
  have b: "generateNewWindowListener demoEnv 1 None 0 newManager ''https://team.example.com/bad uri''
     = (Deny, [Log Debug ''webContentEvents.new-window'',
               OpenExternal ''https://team.example.com/bad uri''], newManager)"
    by simp
  from a b show ?thesis by simp
qed

text \<open>
  C4 as stated fails for an unparseable URL: the parser returns no result, the policy
  returns deny and the external browser is not invoked.
\<close>

theorem C4_unparsed_not_opened_counterexample:
  "parseURL demoEnv ''not a url'' = None
   \<and> fst (generateNewWindowListener demoEnv 1 None 0 newManager ''not a url'') = Deny
   \<and> filter isOpenExternal
         (fst (snd (generateNewWindowListener demoEnv 1 None 0 newManager ''not a url''))) = []
   \<and> OpenExternal ''not a url''
         \<notin> set (fst (snd (generateNewWindowListener demoEnv 1 None 0 newManager ''not a url'')))"
  by (simp add: generateNewWindowListener_def demo_defs)

text \<open>
  C5 (as amended). For every window-open request whose parsed URL's protocol is none of
  \<open>devtools:\<close>, \<open>http:\<close>, \<open>https:\<close> and the custom scheme, the policy invokes
  the protocol-confirmation dialog with the protocol and the URL and returns deny; no
  window is constructed and no URL is loaded.
\<close>

theorem C5_protocol_dialog:
  "parseURL env url = Some p
   \<and> protocol p \<noteq> ''devtools:''
   \<and> protocol p \<noteq> ''http:'' \<and> protocol p \<noteq> ''https:'' \<and> protocol p \<noteq> scheme env @ '':''
   \<longrightarrow> generateNewWindowListener env webContentsId spellcheck fresh m url
         = (Deny, [Log Debug ''webContentEvents.new-window'',
                   HandleDialogEvent (protocol p) url], m)
       \<and> constructed (fst (snd (generateNewWindowListener env webContentsId spellcheck fresh m url))) = []
       \<and> filter isLoadURL (fst (snd (generateNewWindowListener env webContentsId spellcheck fresh m url))) = []"
  by (auto simp add: generateNewWindowListener_def)

text \<open>A \<open>tel:\<close> link goes to the dialog.\<close>

theorem C5_protocol_dialog_witness:
  "generateNewWindowListener demoEnv 1 None 0 newManager ''tel:5550100''
     = (Deny, [Log Debug ''webContentEvents.new-window'',
               HandleDialogEvent ''tel:'' ''tel:5550100''], newManager)"
proof -
  let ?tel =
      "\<lparr>href = ''tel:5550100'',
        protocol = ''tel:'', pathname = ''5550100''\<rparr>"
  have h: "parseURL demoEnv ''tel:5550100''
       = Some ?tel
     \<and> scheme demoEnv = ''mattermost''"
    by (simp add: demo_defs)
  from C5_protocol_dialog [where env = demoEnv and url = "''tel:5550100''"
      and p = "?tel"
      and webContentsId = 1 and spellcheck = None and fresh = 0 and m = newManager] h
  show ?thesis by simp
qed

text \<open>
  C5 as stated fails for \<open>devtools:\<close>: the protocol is none of \<open>http:\<close>,
  \<open>https:\<close> and the custom scheme, yet the policy returns allow and the dialog is
  not invoked.
\<close>

theorem C5_devtools_allowed_counterexample:
  "parseURL demoEnv ''devtools://devtools/bundled/inspector.html'' = Some inspectorURL
   \<and> protocol inspectorURL \<noteq> ''http:''
   \<and> protocol inspectorURL \<noteq> ''https:''
   \<and> protocol inspectorURL \<noteq> scheme demoEnv @ '':''
   \<and> generateNewWindowListener demoEnv 1 None 0 newManager ''devtools://devtools/bundled/inspector.html''
       = (Allow, [Log Debug ''webContentEvents.new-window''], newManager)
   \<and> filter isHandleDialogEvent
         (fst (snd (generateNewWindowListener demoEnv 1 None 0 newManager
                      ''devtools://devtools/bundled/inspector.html''))) = []"
  by (simp add: generateNewWindowListener_def inspectorURL_def demo_defs)




text \<open>
  C7. For every request that reaches the popup branch (none of the earlier rules takes
  it, and the URL is a plugin URL or a managed resource): if the URL is a managed
  resource the popup loads it with no user-agent override, and if it is a plugin URL
  that is not a managed resource the popup loads it with the user agent
  \<open>composeUserAgent()\<close>. In both cases this is the only load, it goes to the shared
  popup (the existing one, or the one just constructed), which the manager refers to
  afterwards, and the policy returns deny.
\<close>

theorem C7_popup_user_agent:
  assumes "getServerURLFromWebContentsId env webContentsId = Some s"
    and "parseURL env url = Some p"
    and "protocol p \<noteq> ''devtools:''"
    and "protocol p = ''http:'' \<or> protocol p = ''https:'' \<or> protocol p = scheme env @ '':''"
    and "isValidURI env url"
    and "\<not> matchPublicFiles (pathname p)"
    and "\<not> matchImageProxy (pathname p)"
    and "\<not> matchHelp (pathname p)"
    and "\<not> isTeamUrl env s (Some p) (Some True)"
    and "\<not> isAdminUrl env s (Some p)"
    and "\<forall>w. popupWindow m = Some w \<longrightarrow> getURL w \<noteq> url"
    and "isPluginUrl env s (Some p) \<or> isManagedResource env s (Some p)"
  shows "(isManagedResource env s (Some p)
            \<longrightarrow> filter isLoadURL (fst (snd (generateNewWindowListener env webContentsId spellcheck fresh m url)))
                  = [LoadURL (winId (fst (ensurePopup spellcheck fresh m))) url None])
       \<and> (isPluginUrl env s (Some p) \<and> \<not> isManagedResource env s (Some p)
            \<longrightarrow> filter isLoadURL (fst (snd (generateNewWindowListener env webContentsId spellcheck fresh m url)))
                  = [LoadURL (winId (fst (ensurePopup spellcheck fresh m))) url
                       (Some (composeUserAgent env))])
       \<and> fst (generateNewWindowListener env webContentsId spellcheck fresh m url) = Deny
       \<and> popupWindow (snd (snd (generateNewWindowListener env webContentsId spellcheck fresh m url)))
            = Some (fst (ensurePopup spellcheck fresh m))"
proof -
  have created: "filter isLoadURL (snd (ensurePopup spellcheck fresh m)) = []"
    by (simp add: ensurePopup_def split: option.splits)
  from assms(11) have notsame: "\<not> (case popupWindow m of None \<Rightarrow> False | Some w \<Rightarrow> getURL w = url)"
    by (simp split: option.splits)
  from assms(1-10,12) notsame created show ?thesis
    by (auto simp add: generateNewWindowListener_def Let_def split: prod.splits)
qed

text \<open>
  With no popup open: a managed resource of the server is loaded with the default
  user agent, the OAuth page of \<open>plugins.example.com\<close> with the substituted one.
\<close>

theorem C7_popup_user_agent_witness:
  "filter isLoadURL (fst (snd (generateNewWindowListener demoEnv 1 None 0 newManager
                                 ''https://team.example.com/plugins/focalboard/board'')))
     = [LoadURL 0 ''https://team.example.com/plugins/focalboard/board'' None]
   \<and> filter isLoadURL (fst (snd (generateNewWindowListener demoEnv 1 None 0 newManager
                                 ''https://plugins.example.com/oauth/start'')))
     = [LoadURL 0 ''https://plugins.example.com/oauth/start''
          (Some ''Mozilla/5.0 Chrome/100.0 Mattermost/5.0'')]"
proof -
  let ?oauth =
      "\<lparr>href = ''https://plugins.example.com/oauth/start'',
        protocol = ''https:'', pathname = ''/oauth/start''\<rparr>"
  let ?board =
      "\<lparr>href = ''https://team.example.com/plugins/focalboard/board'',
        protocol = ''https:'', pathname = ''/plugins/focalboard/board''\<rparr>"
  have srv: "getServerURLFromWebContentsId demoEnv 1 = Some teamServer"
    by (simp add: demo_defs)
  have nopopup: "\<forall>w. popupWindow newManager = Some w \<longrightarrow> getURL w \<noteq> u" for u
    by (simp add: newManager_def)
  have fresh: "winId (fst (ensurePopup None 0 newManager)) = 0"
    by (simp add: ensurePopup_def newManager_def)
  have ua: "composeUserAgent demoEnv = ''Mozilla/5.0 Chrome/100.0 Mattermost/5.0''"
    by (simp add: demoEnv_def)
  have board: "parseURL demoEnv ''https://team.example.com/plugins/focalboard/board'' = Some ?board"
    "protocol ?board \<noteq> ''devtools:''"
    "protocol ?board = ''http:'' \<or> protocol ?board = ''https:''
     \<or> protocol ?board = scheme demoEnv @ '':''"
    "isValidURI demoEnv ''https://team.example.com/plugins/focalboard/board''"
    "\<not> matchPublicFiles (pathname ?board)"
    "\<not> matchImageProxy (pathname ?board)"
    "\<not> matchHelp (pathname ?board)"
    "\<not> isTeamUrl demoEnv teamServer (Some ?board) (Some True)"
    "\<not> isAdminUrl demoEnv teamServer (Some ?board)"
    by (simp_all add: demo_defs)
  have boardm: "isManagedResource demoEnv teamServer (Some ?board)"
    by (simp add: demo_defs)
  then have boardq: "isPluginUrl demoEnv teamServer (Some ?board)
     \<or> isManagedResource demoEnv teamServer (Some ?board)"
    by simp
  have oauth: "parseURL demoEnv ''https://plugins.example.com/oauth/start'' = Some ?oauth"
    "protocol ?oauth \<noteq> ''devtools:''"
    "protocol ?oauth = ''http:'' \<or> protocol ?oauth = ''https:''
     \<or> protocol ?oauth = scheme demoEnv @ '':''"
    "isValidURI demoEnv ''https://plugins.example.com/oauth/start''"
    "\<not> matchPublicFiles (pathname ?oauth)"
    "\<not> matchImageProxy (pathname ?oauth)"
    "\<not> matchHelp (pathname ?oauth)"
    "\<not> isTeamUrl demoEnv teamServer (Some ?oauth) (Some True)"
    "\<not> isAdminUrl demoEnv teamServer (Some ?oauth)"
    by (simp_all add: demo_defs)
  have oauthp: "isPluginUrl demoEnv teamServer (Some ?oauth)
     \<and> \<not> isManagedResource demoEnv teamServer (Some ?oauth)"
    by (simp add: demo_defs)
  then have oauthq: "isPluginUrl demoEnv teamServer (Some ?oauth)
     \<or> isManagedResource demoEnv teamServer (Some ?oauth)"
    by simp
  from C7_popup_user_agent [OF srv board nopopup boardq, of None 0] boardm fresh
  have a: "filter isLoadURL (fst (snd (generateNewWindowListener demoEnv 1 None 0 newManager
                                 ''https://team.example.com/plugins/focalboard/board'')))
     = [LoadURL 0 ''https://team.example.com/plugins/focalboard/board'' None]"
    by simp
  from C7_popup_user_agent [OF srv oauth nopopup oauthq, of None 0] oauthp fresh ua
  have b: "filter isLoadURL (fst (snd (generateNewWindowListener demoEnv 1 None 0 newManager
                                 ''https://plugins.example.com/oauth/start'')))
     = [LoadURL 0 ''https://plugins.example.com/oauth/start''
          (Some ''Mozilla/5.0 Chrome/100.0 Mattermost/5.0'')]"
    by simp
  from a b show ?thesis by simp
qed

section \<open>The single popup\<close>

text \<open>Whenever the policy constructs a window it registers the \<open>closed\<close> listener on it.\<close>

lemma listener_registers_closed_case:
  "(case generateNewWindowListener env webContentsId spellcheck fresh m url of
      (a, effs, m') \<Rightarrow> onceClosed effs = constructed effs)"
  by (simp add: generateNewWindowListener_def ensurePopup_def Let_def split: option.splits)

lemma listener_registers_closed:
  "onceClosed (fst (snd (generateNewWindowListener env webContentsId spellcheck fresh m url)))
     = constructed (fst (snd (generateNewWindowListener env webContentsId spellcheck fresh m url)))"
  using listener_registers_closed_case [where env = env and webContentsId = webContentsId
      and spellcheck = spellcheck and fresh = fresh and m = m and url = url]
  by (simp split: prod.splits)

lemma did_start_keeps_popup:
  "snd (generateDidStartNavigation env m sender url) = Inr m' \<Longrightarrow> popupWindow m' = popupWindow m"
  by (cases "generateDidStartNavigation env m sender url")
     (simp add: did_start_keeps_registered)

lemma step_popupInvariant:
  assumes "popupInvariant sys"
  shows "popupInvariant (step env sys e)"
proof (cases e)
  case (ListenersAdded c)
  with assms show ?thesis
    by (simp add: popupInvariant_def addWebContentsEventListeners_def Let_def split: option.splits)
next
  case (DidStartNavigation c url)
  show ?thesis
  proof (cases "snd (generateDidStartNavigation env (manager sys) c url)")
    case (Inl err)
    with DidStartNavigation assms show ?thesis by simp
  next
    case (Inr m')
    from did_start_keeps_popup [OF Inr] Inr DidStartNavigation assms show ?thesis
      by (simp add: popupInvariant_def split: option.splits)
  qed
next
  case (WindowOpen c sp url)
  note closed = listener_registers_closed [of env c sp "nextId sys" "manager sys" url]
  show ?thesis
  proof (cases "popupWindow (manager sys)")
    case None
    from listener_from_empty [OF None, of env c sp "nextId sys" url] closed assms None WindowOpen
    show ?thesis
      by (auto simp add: popupInvariant_def split: prod.splits)
  next
    case (Some w)
    from listener_keeps_popup [OF Some, of env c sp "nextId sys" url] closed assms Some WindowOpen
    show ?thesis
      by (auto simp add: popupInvariant_def split: prod.splits)
  qed
next
  case (PopupNavigated url)
  with assms show ?thesis
    by (auto simp add: popupInvariant_def split: option.splits)
next
  case (WindowClosed w)
  with assms show ?thesis
    by (auto simp add: popupInvariant_def split: option.splits)
qed

lemma run_popupInvariant:
  "popupInvariant sys \<Longrightarrow> popupInvariant (run sys evs)"
  by (induction evs arbitrary: sys) (auto simp add: step_popupInvariant)

lemma popupInvariant_initial: "popupInvariant initialSystem"
  by (simp add: popupInvariant_def initialSystem_def newManager_def)

lemma popupInvariant_at_most_one: "popupInvariant sys \<Longrightarrow> length (live sys) \<le> 1"
  by (simp add: popupInvariant_def split: option.splits)

lemma popupInvariant_closed_clears:
  assumes "popupInvariant sys" and "w \<in> set (live sys)"
  shows "popupWindow (manager (step env sys (WindowClosed w))) = None
       \<and> w \<notin> set (live (step env sys (WindowClosed w)))"
  using assms by (auto simp add: popupInvariant_def split: option.splits)

lemma step_clears_only_on_closed:
  assumes "popupWindow (manager sys) = Some v"
    and "popupWindow (manager (step env sys e)) = None"
  shows "\<exists>w. e = WindowClosed w \<and> w \<in> set (live sys) \<and> w \<in> set (closedOnce sys)"
proof (cases e)
  case (ListenersAdded c)
  with assms show ?thesis
    by (simp add: addWebContentsEventListeners_def Let_def)
next
  case (DidStartNavigation c url)
  show ?thesis
  proof (cases "snd (generateDidStartNavigation env (manager sys) c url)")
    case (Inl err)
    with DidStartNavigation assms show ?thesis by (simp split: if_splits)
  next
    case (Inr m')
    from did_start_keeps_popup [OF Inr] Inr DidStartNavigation assms show ?thesis
      by (simp split: if_splits)
  qed
next
  case (WindowOpen c sp url)
  from listener_keeps_popup [OF assms(1), of env c sp "nextId sys" url] assms(2) WindowOpen
  show ?thesis by (simp split: prod.splits)
next
  case (PopupNavigated url)
  with assms show ?thesis by simp
next
  case (WindowClosed w)
  with assms show ?thesis by (simp split: if_splits)
qed

text \<open>The run of the example, evaluated.\<close>

lemma demoRun_live:
  "live (run initialSystem demoRun) = [1] \<and> closedOnce (run initialSystem demoRun) = [1]"
  by (simp add: demoRun_def initialSystem_def generateNewWindowListener_def ensurePopup_def
      addWebContentsEventListeners_def demo_defs)

text \<open>
  C9. After every sequence of events from the initial system, the popup the manager
  refers to is the only live window, or there is neither, so at most one popup is
  live. The policy constructs a window only when the popup reference is empty, and
  then exactly one, with the \<open>closed\<close> listener registered on it; when the reference
  is set the policy constructs none and keeps the reference. A step clears a set
  reference only if it is the closing of a live window that carries the \<open>closed\<close>
  listener. And in every state a run reaches, a live window carries that listener, so
  its closing clears the reference and ends the window.
\<close>

theorem C9_single_popup:
  "popupInvariant (run initialSystem evs)
   \<and> length (live (run initialSystem evs)) \<le> 1
   \<and> (constructed (fst (snd (generateNewWindowListener env webContentsId spellcheck fresh m url))) \<noteq> []
        \<longrightarrow> popupWindow m = None
            \<and> constructed (fst (snd (generateNewWindowListener env webContentsId spellcheck fresh m url)))
                = [fresh]
            \<and> onceClosed (fst (snd (generateNewWindowListener env webContentsId spellcheck fresh m url)))
                = [fresh])
   \<and> (popupWindow m = Some v
        \<longrightarrow> constructed (fst (snd (generateNewWindowListener env webContentsId spellcheck fresh m url))) = []
            \<and> popupWindow (snd (snd (generateNewWindowListener env webContentsId spellcheck fresh m url)))
                = Some v)
   \<and> (popupWindow (manager sys) = Some v \<and> popupWindow (manager (step env sys e)) = None
        \<longrightarrow> (\<exists>w. e = WindowClosed w \<and> w \<in> set (live sys) \<and> w \<in> set (closedOnce sys)))
   \<and> (w \<in> set (live (run initialSystem evs))
        \<longrightarrow> w \<in> set (closedOnce (run initialSystem evs))
            \<and> popupWindow (manager (step env (run initialSystem evs) (WindowClosed w))) = None
            \<and> w \<notin> set (live (step env (run initialSystem evs) (WindowClosed w))))"
proof (intro conjI impI)
  show inv: "popupInvariant (run initialSystem evs)"
    by (rule run_popupInvariant [OF popupInvariant_initial])
  from inv show "length (live (run initialSystem evs)) \<le> 1"
    by (rule popupInvariant_at_most_one)
  {
    assume w: "w \<in> set (live (run initialSystem evs))"
    from inv w show "w \<in> set (closedOnce (run initialSystem evs))"
      by (auto simp add: popupInvariant_def split: option.splits)
    from popupInvariant_closed_clears [OF inv w]
    show "popupWindow (manager (step env (run initialSystem evs) (WindowClosed w))) = None"
      by simp
    from popupInvariant_closed_clears [OF inv w]
    show "w \<notin> set (live (step env (run initialSystem evs) (WindowClosed w)))"
      by simp
  }
next
  assume c: "constructed (fst (snd (generateNewWindowListener env webContentsId spellcheck fresh m url))) \<noteq> []"
  show none: "popupWindow m = None"
  proof (cases "popupWindow m")
    case None then show ?thesis .
  next
    case (Some u)
    from listener_keeps_popup [OF Some, of env webContentsId spellcheck fresh url] c
    show ?thesis by simp
  qed
  from listener_from_empty [OF none, of env webContentsId spellcheck fresh url] c
  show one: "constructed (fst (snd (generateNewWindowListener env webContentsId spellcheck fresh m url))) = [fresh]"
    by auto
  from one listener_registers_closed [of env webContentsId spellcheck fresh m url]
  show "onceClosed (fst (snd (generateNewWindowListener env webContentsId spellcheck fresh m url))) = [fresh]"
    by simp
next
  assume "popupWindow m = Some v"
  then show "constructed (fst (snd (generateNewWindowListener env webContentsId spellcheck fresh m url))) = []"
    by (simp add: listener_keeps_popup)
next
  assume "popupWindow m = Some v"
  then show "popupWindow (snd (snd (generateNewWindowListener env webContentsId spellcheck fresh m url))) = Some v"
    by (simp add: listener_keeps_popup)
next
  assume "popupWindow (manager sys) = Some v \<and> popupWindow (manager (step env sys e)) = None"
  then show "\<exists>w. e = WindowClosed w \<and> w \<in> set (live sys) \<and> w \<in> set (closedOnce sys)"
    using step_clears_only_on_closed by blast
qed

text \<open>
  The view 1 is registered, requests two popups, the popup navigates, the view requests
  the page it shows, the popup closes and the view requests a popup again: one live
  window, the second one constructed, with its listener pending; closing it clears the
  reference.
\<close>

theorem C9_single_popup_witness:
  "popupInvariant (run initialSystem demoRun)
   \<and> length (live (run initialSystem demoRun)) \<le> 1
   \<and> live (run initialSystem demoRun) = [1]
   \<and> closedOnce (run initialSystem demoRun) = [1]
   \<and> popupWindow (manager (step demoEnv (run initialSystem demoRun) (WindowClosed 1))) = None
   \<and> live (step demoEnv (run initialSystem demoRun) (WindowClosed 1)) = []"
proof -
  note c9 = C9_single_popup [where evs = demoRun and w = 1 and env = demoEnv]
  from c9 have a: "popupInvariant (run initialSystem demoRun)"
    by (rule conjunct1)
  from c9 have b: "length (live (run initialSystem demoRun)) \<le> 1"
    by (rule conjunct2 [THEN conjunct1])
  from c9 demoRun_live
  have c: "popupWindow (manager (step demoEnv (run initialSystem demoRun) (WindowClosed 1))) = None"
    by simp
  from demoRun_live have d: "live (step demoEnv (run initialSystem demoRun) (WindowClosed 1)) = []"
    by simp
  from a b c d demoRun_live show ?thesis by simp
qed

end
